theory Spec2Isabelle
  imports Main
begin

text \<open>
  The spacing converter of chakra-to-tailwind turns a Chakra UI spacing property and its
  value into Tailwind classes. This theory embeds its two modules: the spacing scale with
  the normalizer \<open>normalizeSpacing\<close> (theme-scales) and the class synthesizer
  \<open>convertSpacing\<close> (mappings/spacing), together with the parts of the JavaScript
  library that they call (\<open>parseFloat\<close>, \<open>parseInt\<close>, the text of a number, \<open>Map\<close>,
  \<open>Object.entries\<close>), and states the claims of the specification about them.
\<close>

section \<open>JavaScript values used by the spacing converter\<close>

text \<open>
  Strings are lists of 8-bit characters (code units below 256). Numbers are the values of
  the JavaScript Number type that the converter can see: NaN, the two infinities and the
  finite numbers. A finite number is carried exactly, as sign, decimal mantissa and decimal
  exponent (\<open>Fin neg m e\<close> is \<open>\<plusminus> m * 10 ^ e\<close>; \<open>Fin True 0 0\<close> is the negative zero).
  JavaScript rounds every finite number to a binary64 double; the exact decimal agrees with
  it as long as the decimals involved have at most 15 significant digits and stay within
  the normal range of doubles, which holds for every concrete value evaluated below
  (division by 16 and multiplication by 4 or 16 are exact on doubles). The statements
  below that range over all numbers and strings speak of the shape of the result (which
  classes there are, their prefixes, NaN, white space) and do not depend on how many
  digits the text of a finite number has.
\<close>

datatype jsnum = NaN | PosInf | NegInf | Fin bool nat int

datatype scalar = Num jsnum | Str string

definition isDigit :: "char \<Rightarrow> bool" where
  "isDigit c = (c \<in> set ''0123456789'')"

definition isHexDigit :: "char \<Rightarrow> bool" where
  "isHexDigit c = (c \<in> set ''0123456789abcdefABCDEF'')"

text \<open>White space and line terminators of ECMAScript that are 8-bit code units:
  TAB, LF, VT, FF, CR, SP and NBSP. The regular expression class \<open>\s\<close> and the trimming
  done by \<open>parseFloat\<close> and \<open>parseInt\<close> use the same set.\<close>

definition isSpace :: "char \<Rightarrow> bool" where
  "isSpace c = (of_char c \<in> {9, 10, 11, 12, 13, 32, 160 :: nat})"

definition digitVal :: "char \<Rightarrow> nat" where
  "digitVal c =
     (let n = (of_char c :: nat) in
      if 48 \<le> n \<and> n \<le> 57 then n - 48
      else if 97 \<le> n \<and> n \<le> 102 then n - 87
      else if 65 \<le> n \<and> n \<le> 70 then n - 55
      else 0)"

definition digitsVal :: "nat \<Rightarrow> string \<Rightarrow> nat" where
  "digitsVal radix ds = foldl (\<lambda>a c. radix * a + digitVal c) 0 ds"

fun digitsOf :: "nat \<Rightarrow> string" where
  "digitsOf n = (if n < 10 then [''0123456789'' ! n]
                 else digitsOf (n div 10) @ [''0123456789'' ! (n mod 10)])"

declare digitsOf.simps [simp del]

function stripZeros :: "nat \<Rightarrow> int \<Rightarrow> nat \<times> int" where
  "stripZeros m e = (if m \<noteq> 0 \<and> m mod 10 = 0 then stripZeros (m div 10) (e + 1) else (m, e))"
  by pat_completeness auto
termination
  by (relation "measure (\<lambda>(m, e). m)") auto

declare stripZeros.simps [simp del]

definition startsWith :: "string \<Rightarrow> string \<Rightarrow> bool" where
  "startsWith s p = (take (length p) s = p)"

definition endsWith :: "string \<Rightarrow> string \<Rightarrow> bool" where
  "endsWith s p = (length p \<le> length s \<and> drop (length s - length p) s = p)"

fun includesStr :: "string \<Rightarrow> string \<Rightarrow> bool" where
  "includesStr [] p = (p = [])"
| "includesStr (c # cs) p = (startsWith (c # cs) p \<or> includesStr cs p)"

fun join :: "string \<Rightarrow> string list \<Rightarrow> string" where
  "join sep [] = []"
| "join sep [x] = x"
| "join sep (x # y # ys) = x @ sep @ join sep (y # ys)"

subsection \<open>Number to text: \<open>Number::toString\<close>, radix 10\<close>

definition finiteText :: "nat \<Rightarrow> int \<Rightarrow> string" where
  "finiteText m e =
     (let (s, e') = stripZeros m e;
          ds = digitsOf s;
          k = int (length ds);
          n = k + e'
      in if k \<le> n \<and> n \<le> 21 then ds @ replicate (nat (n - k)) CHR ''0''
         else if 0 < n \<and> n \<le> 21 then take (nat n) ds @ ''.'' @ drop (nat n) ds
         else if - 6 < n \<and> n \<le> 0 then ''0.'' @ replicate (nat (- n)) CHR ''0'' @ ds
         else let ex = n - 1;
                  sgn = (if ex < 0 then ''-'' else ''+'');
                  et = digitsOf (nat \<bar>ex\<bar>)
              in if k = 1 then ds @ ''e'' @ sgn @ et
                 else hd ds # ''.'' @ tl ds @ ''e'' @ sgn @ et)"

fun toString :: "jsnum \<Rightarrow> string" where
  "toString NaN = ''NaN''"
| "toString PosInf = ''Infinity''"
| "toString NegInf = ''-Infinity''"
| "toString (Fin neg m e) =
     (if m = 0 then ''0'' else (if neg then ''-'' else []) @ finiteText m e)"

subsection \<open>Text to number: \<open>Number.parseFloat\<close> and \<open>Number.parseInt\<close>\<close>

text \<open>Both skip leading white space, read an optional sign and then the longest prefix
  that is a number; what follows the prefix is ignored, and NaN is the result when there is
  no such prefix.\<close>

definition readSign :: "string \<Rightarrow> bool \<times> string" where
  "readSign s =
     (case s of
        [] \<Rightarrow> (False, [])
      | c # cs \<Rightarrow> if c = CHR ''-'' then (True, cs)
                  else if c = CHR ''+'' then (False, cs)
                  else (False, s))"

definition readExponent :: "string \<Rightarrow> int" where
  "readExponent s =
     (case s of
        [] \<Rightarrow> 0
      | c # cs \<Rightarrow>
          if c = CHR ''e'' \<or> c = CHR ''E'' then
            (let (neg, r) = readSign cs; ds = takeWhile isDigit r
             in if ds = [] then 0
                else if neg then - int (digitsVal 10 ds) else int (digitsVal 10 ds))
          else 0)"

definition parseFloat :: "string \<Rightarrow> jsnum" where
  "parseFloat s =
     (let (neg, r) = readSign (dropWhile isSpace s) in
      if startsWith r ''Infinity'' then (if neg then NegInf else PosInf)
      else
        let ip = takeWhile isDigit r;
            r1 = dropWhile isDigit r;
            dot = (r1 \<noteq> [] \<and> hd r1 = CHR ''.'');
            fp = (if dot then takeWhile isDigit (tl r1) else []);
            r2 = (if dot then dropWhile isDigit (tl r1) else r1)
        in if ip = [] \<and> fp = [] then NaN
           else Fin neg (digitsVal 10 (ip @ fp)) (readExponent r2 - int (length fp)))"

definition parseInt :: "string \<Rightarrow> jsnum" where
  "parseInt s =
     (let (neg, r) = readSign (dropWhile isSpace s);
          hex = (startsWith r ''0x'' \<or> startsWith r ''0X'');
          ds = (if hex then takeWhile isHexDigit (drop 2 r) else takeWhile isDigit r)
      in if ds = [] then NaN
         else Fin neg (digitsVal (if hex then 16 else 10) ds) 0)"

subsection \<open>Arithmetic and comparison\<close>

fun isNaN :: "jsnum \<Rightarrow> bool" where
  "isNaN NaN = True"
| "isNaN _ = False"

text \<open>\<open>x * k\<close> and \<open>x / 16\<close> for the positive constants the source uses.\<close>

fun mulBy :: "jsnum \<Rightarrow> nat \<Rightarrow> jsnum" where
  "mulBy (Fin neg m e) k = Fin neg (m * k) e"
| "mulBy x k = x"

fun div16 :: "jsnum \<Rightarrow> jsnum" where
  "div16 (Fin neg m e) = Fin neg (m * 625) (e - 4)"
| "div16 x = x"

fun mathAbs :: "jsnum \<Rightarrow> jsnum" where
  "mathAbs (Fin neg m e) = Fin False m e"
| "mathAbs NegInf = PosInf"
| "mathAbs x = x"

fun isZero :: "jsnum \<Rightarrow> bool" where
  "isZero (Fin neg m e) = (m = 0)"
| "isZero _ = False"

fun isNegative :: "jsnum \<Rightarrow> bool" where
  "isNegative (Fin neg m e) = (neg \<and> m \<noteq> 0)"
| "isNegative NegInf = True"
| "isNegative _ = False"

text \<open>Key equality of a \<open>Map\<close> (SameValueZero): NaN equals NaN, the two zeros are equal.\<close>

fun sameValueZero :: "jsnum \<Rightarrow> jsnum \<Rightarrow> bool" where
  "sameValueZero (Fin n1 m1 e1) (Fin n2 m2 e2) =
     (if m1 = 0 \<or> m2 = 0 then m1 = m2
      else n1 = n2 \<and> stripZeros m1 e1 = stripZeros m2 e2)"
| "sameValueZero x y = (x = y)"

text \<open>A template literal prints an absent value (\<open>undefined\<close>) as the text \<open>undefined\<close>;
  a condition on a string or absent value holds when the string is present and not empty.\<close>

definition templ :: "string option \<Rightarrow> string" where
  "templ v = (case v of Some s \<Rightarrow> s | None \<Rightarrow> ''undefined'')"

definition truthy :: "string option \<Rightarrow> bool" where
  "truthy v = (case v of Some s \<Rightarrow> s \<noteq> [] | None \<Rightarrow> False)"

definition nonNull :: "'a option list \<Rightarrow> 'a list" where
  "nonNull xs = map the (filter (\<lambda>x. x \<noteq> None) xs)"

subsection \<open>Objects and Maps\<close>

text \<open>\<open>Object.entries\<close> lists the keys that are array indices first, in ascending numeric
  order, and then the other keys in the order in which they were written.\<close>

definition isIndexKey :: "string \<Rightarrow> bool" where
  "isIndexKey k = (k \<noteq> [] \<and> list_all isDigit k \<and> (k = ''0'' \<or> hd k \<noteq> CHR ''0'')
                   \<and> int (digitsVal 10 k) < 4294967295)"

definition objectEntries :: "(string \<times> 'a) list \<Rightarrow> (string \<times> 'a) list" where
  "objectEntries kvs =
     sort_key (\<lambda>(k, v). digitsVal 10 k) (filter (\<lambda>(k, v). isIndexKey k) kvs)
     @ filter (\<lambda>(k, v). \<not> isIndexKey k) kvs"

text \<open>A \<open>Map\<close> is the list of its entries in insertion order; \<open>set\<close> replaces the value of
  a key that is present and appends otherwise. The first argument is the equality of keys.\<close>

fun mapSet :: "('k \<Rightarrow> 'k \<Rightarrow> bool) \<Rightarrow> 'k \<Rightarrow> 'v \<Rightarrow> ('k \<times> 'v) list \<Rightarrow> ('k \<times> 'v) list" where
  "mapSet eq k v [] = [(k, v)]"
| "mapSet eq k v ((k', v') # m) =
     (if eq k' k then (k', v) # m else (k', v') # mapSet eq k v m)"

fun mapGet :: "('k \<Rightarrow> 'k \<Rightarrow> bool) \<Rightarrow> ('k \<times> 'v) list \<Rightarrow> 'k \<Rightarrow> 'v option" where
  "mapGet eq [] k = None"
| "mapGet eq ((k', v') # m) k = (if eq k' k then Some v' else mapGet eq m k)"

section \<open>The spacing scale (theme-scales)\<close>

definition spacingScale :: "(string \<times> string) list" where
  "spacingScale =
     [(''px'', ''1px''),
      (''0'', ''0''),
      (''0.5'', ''0.125rem''),
      (''1'', ''0.25rem''),
      (''1.5'', ''0.375rem''),
      (''2'', ''0.5rem''),
      (''2.5'', ''0.625rem''),
      (''3'', ''0.75rem''),
      (''3.5'', ''0.875rem''),
      (''4'', ''1rem''),
      (''5'', ''1.25rem''),
      (''6'', ''1.5rem''),
      (''7'', ''1.75rem''),
      (''8'', ''2rem''),
      (''9'', ''2.25rem''),
      (''10'', ''2.5rem''),
      (''12'', ''3rem''),
      (''14'', ''3.5rem''),
      (''16'', ''4rem''),
      (''20'', ''5rem''),
      (''24'', ''6rem''),
      (''28'', ''7rem''),
      (''32'', ''8rem''),
      (''36'', ''9rem''),
      (''40'', ''10rem''),
      (''44'', ''11rem''),
      (''48'', ''12rem''),
      (''52'', ''13rem''),
      (''56'', ''14rem''),
      (''60'', ''15rem''),
      (''64'', ''16rem''),
      (''72'', ''18rem''),
      (''80'', ''20rem''),
      (''96'', ''24rem'')]"

definition remToScaleMap :: "(string \<times> string) list" where
  "remToScaleMap =
     foldl (\<lambda>m (key, value). if endsWith value ''rem'' then mapSet (=) value key m else m)
       [] (objectEntries spacingScale)"

definition pxToScaleMap :: "(jsnum \<times> string) list" where
  "pxToScaleMap =
     foldl (\<lambda>m (key, value).
         if endsWith value ''px'' then mapSet sameValueZero (parseInt value) key m
         else if endsWith value ''rem'' then
           mapSet sameValueZero (mulBy (parseFloat value) 16) key m
         else if value = ''0'' then mapSet sameValueZero (Fin False 0 0) key m
         else m)
       [] (objectEntries spacingScale)"

definition removeSpaces :: "string \<Rightarrow> string" where
  "removeSpaces value =
     (if includesStr value ''calc'' \<or> includesStr value ''clamp''
      then filter (\<lambda>c. \<not> isSpace c) value
      else value)"

definition normalizeToRem :: "string \<Rightarrow> string option" where
  "normalizeToRem value =
     (if endsWith value ''px'' then
        (let px = parseFloat value in Some (toString (div16 px) @ ''rem''))
      else if endsWith value ''rem'' then Some value
      else None)"

function normalizeSpacing :: "scalar option \<Rightarrow> string" where
  "normalizeSpacing None = []"
| "normalizeSpacing (Some (Num value)) =
     (if isZero value then ''0''
      else if isNegative value then ''[-'' @ toString (mathAbs (mulBy value 4)) @ ''px]''
      else toString value)"
| "normalizeSpacing (Some (Str value)) =
     (if value = ''auto'' then ''auto''
      else if startsWith value ''-'' \<and> \<not> isNaN (parseFloat value)
        then normalizeSpacing (Some (Num (parseFloat value)))
      else
        let cleanValue = removeSpaces value in
        if cleanValue = ''0'' \<or> cleanValue = ''0px'' \<or> cleanValue = ''0rem'' then ''0''
        else
          let remValue = normalizeToRem cleanValue;
              scaleValue = (if truthy remValue
                            then mapGet (=) remToScaleMap (the remValue) else None)
          in if truthy scaleValue then the scaleValue
             else if endsWith cleanValue ''px'' then
               (let px = parseInt cleanValue;
                    scaleValue = mapGet sameValueZero pxToScaleMap (mathAbs px)
                in if truthy scaleValue
                   then (if isNegative px then ''[-'' @ toString (mathAbs px) @ ''px]''
                         else the scaleValue)
                   else (if isNegative px then ''[-'' @ toString (mathAbs px) @ ''px]''
                         else ''['' @ toString px @ ''px]''))
             else ''['' @ cleanValue @ '']'')"
  by pat_completeness auto
termination
  by (relation "measure (\<lambda>v. case v of Some (Str s) \<Rightarrow> 1 | _ \<Rightarrow> 0)") auto

declare normalizeSpacing.simps(3) [simp del]

section \<open>The class synthesizer (spacing)\<close>

definition propertyPrefixMap :: "(string \<times> string) list" where
  "propertyPrefixMap =
     [(''margin'', ''m''),
      (''marginTop'', ''mt''),
      (''marginRight'', ''mr''),
      (''marginBottom'', ''mb''),
      (''marginLeft'', ''ml''),
      (''marginX'', ''mx''),
      (''marginY'', ''my''),
      (''marginInline'', ''mx''),
      (''marginInlineStart'', ''ms''),
      (''marginInlineEnd'', ''me''),
      (''marginBlock'', ''my''),
      (''marginBlockStart'', ''mt''),
      (''marginBlockEnd'', ''mb''),
      (''m'', ''m''),
      (''mt'', ''mt''),
      (''mr'', ''mr''),
      (''mb'', ''mb''),
      (''ml'', ''ml''),
      (''mx'', ''mx''),
      (''my'', ''my''),
      (''ms'', ''ms''),
      (''me'', ''me''),
      (''padding'', ''p''),
      (''paddingTop'', ''pt''),
      (''paddingRight'', ''pr''),
      (''paddingBottom'', ''pb''),
      (''paddingLeft'', ''pl''),
      (''paddingX'', ''px''),
      (''paddingY'', ''py''),
      (''paddingInline'', ''px''),
      (''paddingInlineStart'', ''ps''),
      (''paddingInlineEnd'', ''pe''),
      (''paddingBlock'', ''py''),
      (''paddingBlockStart'', ''pt''),
      (''paddingBlockEnd'', ''pb''),
      (''p'', ''p''),
      (''pt'', ''pt''),
      (''pr'', ''pr''),
      (''pb'', ''pb''),
      (''pl'', ''pl''),
      (''px'', ''px''),
      (''py'', ''py''),
      (''ps'', ''ps''),
      (''pe'', ''pe''),
      (''gap'', ''gap''),
      (''rowGap'', ''gap-y''),
      (''columnGap'', ''gap-x''),
      (''space'', ''space'')]"

text \<open>The names that every object inherits from \<open>Object.prototype\<close>. Indexing the prefix
  table with one of them yields the inherited member, whose text depends on the engine; the
  model reads the table's own keys only, and the statements below that speak of identifiers
  absent from the table exclude these names.\<close>

definition objectPrototypeKeys :: "string list" where
  "objectPrototypeKeys =
     [''constructor'', ''hasOwnProperty'', ''isPrototypeOf'', ''propertyIsEnumerable'',
      ''toLocaleString'', ''toString'', ''valueOf'', ''__proto__'',
      ''__defineGetter__'', ''__defineSetter__'', ''__lookupGetter__'', ''__lookupSetter__'']"

text \<open>A spacing value: a number or string, an array of numbers, strings and nulls, or an
  object from breakpoint names to numbers and strings (its entries as they are written,
  with distinct keys).\<close>

datatype spacingValue =
    Scalar scalar
  | Sequence "scalar option list"
  | Keyed "(string \<times> scalar) list"

definition breakpoints :: "string list" where
  "breakpoints = ['''', ''sm'', ''md'', ''lg'', ''xl'', ''2xl'']"

definition breakpointAt :: "nat \<Rightarrow> string option" where
  "breakpointAt i = (if i < length breakpoints then Some (breakpoints ! i) else None)"

text \<open>The callback of the array branch, with the counter \<open>validIndex\<close> that it updates
  threaded through the traversal.\<close>

fun sequenceItems :: "string \<Rightarrow> nat \<Rightarrow> scalar option list \<Rightarrow> string option list" where
  "sequenceItems prefix validIndex [] = []"
| "sequenceItems prefix validIndex (None # vs) = None # sequenceItems prefix validIndex vs"
| "sequenceItems prefix validIndex (Some v # vs) =
     (let breakpoint = (if validIndex = 0 then [] else templ (breakpointAt validIndex) @ '':'');
          normalizedValue = normalizeSpacing (Some v)
      in (if normalizedValue \<noteq> []
          then Some (breakpoint @ prefix @ ''-'' @ normalizedValue) else None)
         # sequenceItems prefix (validIndex + 1) vs)"

definition keyedItem :: "string \<Rightarrow> string \<times> scalar \<Rightarrow> string option" where
  "keyedItem prefix = (\<lambda>(breakpoint, v).
     let bp = (if breakpoint = ''base'' then [] else breakpoint @ '':'');
         normalizedValue = normalizeSpacing (Some v)
     in if normalizedValue \<noteq> [] then Some (bp @ prefix @ ''-'' @ normalizedValue) else None)"

definition convertSpacing :: "string \<Rightarrow> spacingValue \<Rightarrow> string" where
  "convertSpacing property value =
     (let prefix = templ (map_of propertyPrefixMap property) in
      case value of
        Sequence vs \<Rightarrow> join '' '' (nonNull (sequenceItems prefix 0 vs))
      | Keyed kvs \<Rightarrow> join '' '' (nonNull (map (keyedItem prefix) (objectEntries kvs)))
      | Scalar v \<Rightarrow>
          (let normalizedValue = normalizeSpacing (Some v)
           in if normalizedValue \<noteq> [] then prefix @ ''-'' @ normalizedValue else []))"

section \<open>Notions used in the statements\<close>

text \<open>The breakpoint prefix that the array branch puts in front of the class of the
  element that meets the counter at \<open>i\<close>.\<close>

definition breakpointPrefix :: "nat \<Rightarrow> string" where
  "breakpointPrefix i = (if i = 0 then [] else templ (breakpointAt i) @ '':'')"

text \<open>The pixel string equivalent to the length of a scale entry, following the words of
  the specification: the rem magnitude times 16, \<open>0\<close> as \<open>0px\<close>, and the pixel entry
  as it is.\<close>

definition pxEquivalent :: "string \<Rightarrow> string" where
  "pxEquivalent len =
     (if len = ''0'' then ''0px''
      else if endsWith len ''px'' then len
      else toString (mulBy (parseFloat len) 16) @ ''px'')"

definition hasSpace :: "string \<Rightarrow> bool" where
  "hasSpace s = list_ex isSpace s"

definition isStep :: "string \<Rightarrow> bool" where
  "isStep t = (t \<in> set (map fst spacingScale))"

definition bracketed :: "string \<Rightarrow> bool" where
  "bracketed t = (2 \<le> length t \<and> hd t = CHR ''['' \<and> last t = CHR '']'')"

text \<open>The characters of the text of a finite number, and the texts of numbers.\<close>

definition numChar :: "char \<Rightarrow> bool" where
  "numChar c = (c \<in> set ''0123456789.e+-'')"

definition numberText :: "string \<Rightarrow> bool" where
  "numberText t = (t = ''NaN'' \<or> t = ''Infinity'' \<or> (t \<noteq> [] \<and> list_all numChar t))"

text \<open>The shapes of the token that follows the prefix in a class: a keyword, a scale
  step, the text of a number that is passed through, or a bracketed literal.\<close>

definition tokenForm :: "string \<Rightarrow> bool" where
  "tokenForm t = (t = ''auto'' \<or> t = ''0'' \<or> isStep t \<or> numberText t \<or> bracketed t)"

text \<open>The token shapes of the output contract as the specification words them, with
  bracketed literals free of white space.\<close>

definition claimedToken :: "string \<Rightarrow> bool" where
  "claimedToken t =
     (isStep t \<or> t = ''auto'' \<or> t = ''0'' \<or> (bracketed t \<and> \<not> hasSpace t))"

text \<open>A string that contains white space and neither \<open>calc\<close> nor \<open>clamp\<close>: the strings
  whose white space \<open>removeSpaces\<close> keeps.\<close>

definition spacedLiteral :: "scalar \<Rightarrow> bool" where
  "spacedLiteral v =
     (case v of
        Str s \<Rightarrow> hasSpace s \<and> \<not> includesStr s ''calc'' \<and> \<not> includesStr s ''clamp''
      | Num n \<Rightarrow> False)"

text \<open>The numbers and strings that a spacing value holds.\<close>

fun leaves :: "spacingValue \<Rightarrow> scalar list" where
  "leaves (Scalar v) = [v]"
| "leaves (Sequence vs) = nonNull vs"
| "leaves (Keyed kvs) = map snd kvs"

fun splitOn :: "char \<Rightarrow> string \<Rightarrow> string list" where
  "splitOn sep [] = [[]]"
| "splitOn sep (c # cs) =
     (if c = sep then [] # splitOn sep cs
      else (case splitOn sep cs of w # ws \<Rightarrow> (c # w) # ws | [] \<Rightarrow> [[c]]))"

text \<open>A text from which \<open>parseFloat\<close> reads a number, once white space and sign are
  gone.\<close>

definition numberStart :: "string \<Rightarrow> bool" where
  "numberStart r =
     (startsWith r ''Infinity''
      \<or> (\<exists>d r'. r = d # r' \<and> isDigit d)
      \<or> (\<exists>d r'. r = CHR ''.'' # d # r' \<and> isDigit d))"

section \<open>The lookup tables, evaluated\<close>

lemma objectEntries_spacingScale:
  "objectEntries spacingScale =
   [(''0'', ''0''), (''1'', ''0.25rem''), (''2'', ''0.5rem''), (''3'', ''0.75rem''),
    (''4'', ''1rem''), (''5'', ''1.25rem''), (''6'', ''1.5rem''), (''7'', ''1.75rem''),
    (''8'', ''2rem''), (''9'', ''2.25rem''), (''10'', ''2.5rem''), (''12'', ''3rem''),
    (''14'', ''3.5rem''), (''16'', ''4rem''), (''20'', ''5rem''), (''24'', ''6rem''),
    (''28'', ''7rem''), (''32'', ''8rem''), (''36'', ''9rem''), (''40'', ''10rem''),
    (''44'', ''11rem''), (''48'', ''12rem''), (''52'', ''13rem''), (''56'', ''14rem''),
    (''60'', ''15rem''), (''64'', ''16rem''), (''72'', ''18rem''), (''80'', ''20rem''),
    (''96'', ''24rem''), (''px'', ''1px''), (''0.5'', ''0.125rem''), (''1.5'', ''0.375rem''),
    (''2.5'', ''0.625rem''), (''3.5'', ''0.875rem'')]"
  by (simp add: objectEntries_def spacingScale_def isIndexKey_def isDigit_def
      digitsVal_def digitVal_def)

lemma remToScaleMap_eval:
  "remToScaleMap =
   [(''0.25rem'', ''1''), (''0.5rem'', ''2''), (''0.75rem'', ''3''),
    (''1rem'', ''4''), (''1.25rem'', ''5''), (''1.5rem'', ''6''),
    (''1.75rem'', ''7''), (''2rem'', ''8''), (''2.25rem'', ''9''),
    (''2.5rem'', ''10''), (''3rem'', ''12''), (''3.5rem'', ''14''),
    (''4rem'', ''16''), (''5rem'', ''20''), (''6rem'', ''24''),
    (''7rem'', ''28''), (''8rem'', ''32''), (''9rem'', ''36''),
    (''10rem'', ''40''), (''11rem'', ''44''), (''12rem'', ''48''),
    (''13rem'', ''52''), (''14rem'', ''56''), (''15rem'', ''60''),
    (''16rem'', ''64''), (''18rem'', ''72''), (''20rem'', ''80''),
    (''24rem'', ''96''), (''0.125rem'', ''0.5''), (''0.375rem'', ''1.5''),
    (''0.625rem'', ''2.5''), (''0.875rem'', ''3.5'')]"
  by (simp add: remToScaleMap_def objectEntries_spacingScale endsWith_def)

lemma pxToScaleMap_eval:
  "pxToScaleMap =
   [(Fin False 0 0, ''0''), (Fin False 400 (- 2), ''1''),
    (Fin False 80 (- 1), ''2''), (Fin False 1200 (- 2), ''3''),
    (Fin False 16 0, ''4''), (Fin False 2000 (- 2), ''5''),
    (Fin False 240 (- 1), ''6''), (Fin False 2800 (- 2), ''7''),
    (Fin False 32 0, ''8''), (Fin False 3600 (- 2), ''9''),
    (Fin False 400 (- 1), ''10''), (Fin False 48 0, ''12''),
    (Fin False 560 (- 1), ''14''), (Fin False 64 0, ''16''),
    (Fin False 80 0, ''20''), (Fin False 96 0, ''24''),
    (Fin False 112 0, ''28''), (Fin False 128 0, ''32''),
    (Fin False 144 0, ''36''), (Fin False 160 0, ''40''),
    (Fin False 176 0, ''44''), (Fin False 192 0, ''48''),
    (Fin False 208 0, ''52''), (Fin False 224 0, ''56''),
    (Fin False 240 0, ''60''), (Fin False 256 0, ''64''),
    (Fin False 288 0, ''72''), (Fin False 320 0, ''80''),
    (Fin False 384 0, ''96''), (Fin False 1 0, ''px''),
    (Fin False 2000 (- 3), ''0.5''), (Fin False 6000 (- 3), ''1.5''),
    (Fin False 10000 (- 3), ''2.5''), (Fin False 14000 (- 3), ''3.5'')]"
  by (simp add: pxToScaleMap_def objectEntries_spacingScale endsWith_def parseInt_def
      parseFloat_def readSign_def readExponent_def startsWith_def isSpace_def isDigit_def
      digitsVal_def digitVal_def stripZeros.simps)

lemmas eval_simps =
  convertSpacing_def propertyPrefixMap_def templ_def nonNull_def breakpointAt_def
  breakpoints_def normalizeSpacing.simps removeSpaces_def normalizeToRem_def truthy_def
  endsWith_def startsWith_def remToScaleMap_eval pxToScaleMap_eval parseFloat_def
  parseInt_def readSign_def readExponent_def isSpace_def isDigit_def isHexDigit_def
  digitsVal_def digitVal_def finiteText_def stripZeros.simps digitsOf.simps Let_def

section \<open>Texts of numbers\<close>

lemma digitsOf_nonempty: "digitsOf n \<noteq> []"
  by (subst digitsOf.simps) simp

lemma finiteText_nonempty: "finiteText m e \<noteq> []"
  by (simp add: finiteText_def Let_def digitsOf_nonempty split: prod.splits)

lemma toString_nonempty: "toString n \<noteq> []"
  by (cases n) (simp_all add: finiteText_nonempty)

lemma digitsOf_digits: "\<forall>c \<in> set (digitsOf n). isDigit c"
proof (induction n rule: digitsOf.induct)
  case (1 n)
  have nth: "\<And>k. k < 10 \<Longrightarrow> isDigit (''0123456789'' ! k)"
    unfolding isDigit_def by (rule nth_mem) simp
  show ?case
  proof (cases "n < 10")
    case True
    then show ?thesis using nth [of n] by (subst digitsOf.simps) simp
  next
    case False
    then have "\<forall>c \<in> set (digitsOf (n div 10)). isDigit c" by (rule 1)
    moreover have "isDigit (''0123456789'' ! (n mod 10))"
      by (rule nth) simp
    ultimately show ?thesis using False by (subst digitsOf.simps) simp
  qed
qed

lemma numChar_digit: "isDigit c \<Longrightarrow> numChar c"
  by (auto simp add: isDigit_def numChar_def)

lemma finiteText_numChars: "\<forall>c \<in> set (finiteText m e). numChar c"
proof -
  obtain s e' where se: "stripZeros m e = (s, e')" by (cases "stripZeros m e")
  let ?ds = "digitsOf s"
  have ds: "\<And>c. c \<in> set ?ds \<Longrightarrow> numChar c"
    using digitsOf_digits numChar_digit by blast
  have tk: "\<And>k c. c \<in> set (take k ?ds) \<Longrightarrow> numChar c"
    using ds in_set_takeD by fast
  have dr: "\<And>k c. c \<in> set (drop k ?ds) \<Longrightarrow> numChar c"
    using ds in_set_dropD by fast
  have hd: "numChar (hd ?ds)"
    using ds [of "hd ?ds"] digitsOf_nonempty [of s] by simp
  have tl: "numChar c" if "c \<in> set (tl ?ds)" for c
  proof -
    from that have "c \<in> set ?ds" by (rule list.set_sel(2) [OF digitsOf_nonempty])
    then show ?thesis by (rule ds)
  qed
  have ex: "\<And>k c. c \<in> set (digitsOf k) \<Longrightarrow> numChar c"
    using digitsOf_digits numChar_digit by blast
  have nc: "numChar CHR ''0''" "numChar CHR ''.''" "numChar CHR ''e''"
    "numChar CHR ''+''" "numChar CHR ''-''"
    by (simp_all add: numChar_def)
  show ?thesis
    unfolding finiteText_def se Let_def prod.case
    using ds tk dr hd tl ex nc by (auto split: if_splits)
qed

lemma numberText_toString: "\<not> isNegative n \<Longrightarrow> numberText (toString n)"
proof (cases n)
  case (Fin neg m e)
  assume "\<not> isNegative n"
  with Fin have nn: "m = 0 \<or> \<not> neg" by auto
  have z: "numberText ''0''" by (simp add: numberText_def numChar_def)
  have "numberText (finiteText m e)"
    using finiteText_numChars [of m e] finiteText_nonempty [of m e]
    by (simp add: numberText_def list_all_iff)
  then show ?thesis using Fin nn z by auto
qed (simp_all add: numberText_def)

lemma numChar_noSpace: "numChar c \<Longrightarrow> \<not> isSpace c"
  by (auto simp add: numChar_def isSpace_def)

lemma hasSpace_simps [simp]:
  "hasSpace [] = False"
  "hasSpace (c # cs) = (isSpace c \<or> hasSpace cs)"
  "hasSpace (a @ b) = (hasSpace a \<or> hasSpace b)"
  by (simp_all add: hasSpace_def)

lemma toString_noSpace: "\<not> hasSpace (toString n)"
proof (cases n)
  case (Fin neg m e)
  have "\<not> hasSpace (finiteText m e)"
    using finiteText_numChars [of m e] numChar_noSpace
    unfolding hasSpace_def list_ex_iff by blast
  then show ?thesis using Fin by (simp add: isSpace_def)
qed (simp_all add: isSpace_def)

section \<open>Reading numbers\<close>

lemma isNaN_iff: "isNaN n \<longleftrightarrow> n = NaN"
  by (cases n) simp_all

lemma takeWhile_nonempty_iff: "takeWhile P xs \<noteq> [] \<longleftrightarrow> (\<exists>d r. xs = d # r \<and> P d)"
  by (cases xs) auto

lemma isNaN_parseFloat_iff:
  "isNaN (parseFloat s) \<longleftrightarrow> \<not> numberStart (snd (readSign (dropWhile isSpace s)))"
proof -
  obtain neg r where r: "readSign (dropWhile isSpace s) = (neg, r)"
    by (cases "readSign (dropWhile isSpace s)")
  show ?thesis
  proof (cases "takeWhile isDigit r = []")
    case True
    then have r1: "dropWhile isDigit r = r"
      by (cases r) (auto split: if_splits)
    from True have nod: "\<not> (\<exists>d r'. r = d # r' \<and> isDigit d)"
      using takeWhile_nonempty_iff [of isDigit r] by simp
    show ?thesis
    proof (cases r)
      case Nil
      then show ?thesis using r by (simp add: parseFloat_def numberStart_def startsWith_def)
    next
      case (Cons c cs)
      then show ?thesis using r True r1 nod
        by (auto simp add: parseFloat_def numberStart_def Let_def takeWhile_nonempty_iff)
    qed
  next
    case False
    then obtain d r' where "r = d # r'" "isDigit d"
      using takeWhile_nonempty_iff [of isDigit r] by auto
    then show ?thesis using r False
      by (auto simp add: parseFloat_def numberStart_def Let_def)
  qed
qed

text \<open>A text from which \<open>parseFloat\<close> reads no number gives none to \<open>parseInt\<close> either.\<close>

lemma parseInt_NaN:
  assumes "isNaN (parseFloat s)"
  shows "parseInt s = NaN"
proof -
  obtain neg r where r: "readSign (dropWhile isSpace s) = (neg, r)"
    by (cases "readSign (dropWhile isSpace s)")
  from assms r have nodigit: "takeWhile isDigit r = []"
    by (simp add: parseFloat_def Let_def split: if_splits)
  have "\<not> startsWith r ''0x''" "\<not> startsWith r ''0X''"
    using nodigit by (cases r; auto simp add: startsWith_def isDigit_def)+
  with nodigit r show ?thesis by (simp add: parseInt_def Let_def)
qed

text \<open>Removing white space never destroys the number at the front of a text.\<close>

lemma filter_dropWhile_not:
  "filter (\<lambda>c. \<not> P c) (dropWhile P xs) = filter (\<lambda>c. \<not> P c) xs"
  by (induction xs) simp_all

lemma dropWhile_filter_not:
  "dropWhile P (filter (\<lambda>c. \<not> P c) xs) = filter (\<lambda>c. \<not> P c) xs"
  by (induction xs) simp_all

lemma readSign_filter:
  assumes "s = [] \<or> \<not> isSpace (hd s)"
  shows "snd (readSign (filter (\<lambda>c. \<not> isSpace c) s)) =
         filter (\<lambda>c. \<not> isSpace c) (snd (readSign s))"
  using assms by (cases s) (auto simp add: readSign_def isSpace_def)

lemma numberStart_filter:
  assumes "numberStart r"
  shows "numberStart (filter (\<lambda>c. \<not> isSpace c) r)"
proof -
  have dig: "\<And>d. isDigit d \<Longrightarrow> \<not> isSpace d"
    by (auto simp add: isDigit_def isSpace_def)
  from assms consider (inf) "startsWith r ''Infinity''"
    | (int) d r' where "r = d # r'" "isDigit d"
    | (frac) d r' where "r = CHR ''.'' # d # r'" "isDigit d"
    by (auto simp add: numberStart_def)
  then show ?thesis
  proof cases
    case inf
    then have "take (length ''Infinity'') r = ''Infinity''" by (simp only: startsWith_def)
    then obtain rest where "r = ''Infinity'' @ rest" by (metis append_take_drop_id)
    then have "filter (\<lambda>c. \<not> isSpace c) r =
               ''Infinity'' @ filter (\<lambda>c. \<not> isSpace c) rest"
      by (simp add: isSpace_def)
    then show ?thesis by (simp add: numberStart_def startsWith_def)
  next
    case int
    then show ?thesis using dig by (simp add: numberStart_def)
  next
    case frac
    then show ?thesis using dig by (simp add: numberStart_def isSpace_def)
  qed
qed

lemma isNaN_parseFloat_filter:
  assumes "isNaN (parseFloat (filter (\<lambda>c. \<not> isSpace c) s))"
  shows "isNaN (parseFloat s)"
proof -
  let ?f = "filter (\<lambda>c. \<not> isSpace c)"
  let ?t = "dropWhile isSpace s"
  have hd: "?t = [] \<or> \<not> isSpace (hd ?t)"
    by (metis hd_dropWhile)
  have "snd (readSign (dropWhile isSpace (?f s))) = ?f (snd (readSign ?t))"
    using readSign_filter [OF hd]
    by (simp add: dropWhile_filter_not filter_dropWhile_not)
  with assms have "\<not> numberStart (?f (snd (readSign ?t)))"
    by (simp add: isNaN_parseFloat_iff)
  then have "\<not> numberStart (snd (readSign ?t))"
    using numberStart_filter by blast
  then show ?thesis by (simp add: isNaN_parseFloat_iff)
qed

lemma isNaN_parseFloat_removeSpaces:
  "isNaN (parseFloat (removeSpaces value)) \<Longrightarrow> isNaN (parseFloat value)"
  by (auto simp add: removeSpaces_def isNaN_parseFloat_filter split: if_splits)

lemma endsWith_iff: "endsWith s p \<longleftrightarrow> (\<exists>pre. s = pre @ p)"
proof
  assume "endsWith s p"
  then have "s = take (length s - length p) s @ p"
    by (metis append_take_drop_id endsWith_def)
  then show "\<exists>pre. s = pre @ p" ..
next
  assume "\<exists>pre. s = pre @ p"
  then show "endsWith s p" by (auto simp add: endsWith_def)
qed

lemma endsWith_removeSpaces_px:
  assumes "endsWith value ''px''"
  shows "endsWith (removeSpaces value) ''px''"
proof -
  from assms obtain pre where "value = pre @ ''px''" by (auto simp add: endsWith_iff)
  then have "removeSpaces value = pre @ ''px''
           \<or> removeSpaces value = filter (\<lambda>c. \<not> isSpace c) pre @ ''px''"
    by (simp add: removeSpaces_def isSpace_def)
  then show ?thesis by (auto simp add: endsWith_iff)
qed

section \<open>Properties of the normalizer\<close>

lemma truthy_None [simp]: "\<not> truthy None"
  by (simp add: truthy_def)

lemma mapGet_in: "mapGet eq m k = Some v \<Longrightarrow> v \<in> snd ` set m"
  by (induction m) (auto split: if_splits)

lemma remToScaleMap_steps: "\<forall>v \<in> snd ` set remToScaleMap. isStep v \<and> \<not> hasSpace v"
  by (simp add: remToScaleMap_eval isStep_def spacingScale_def isSpace_def)

lemma pxToScaleMap_steps: "\<forall>v \<in> snd ` set pxToScaleMap. isStep v \<and> \<not> hasSpace v"
  by (simp add: pxToScaleMap_eval isStep_def spacingScale_def isSpace_def)

lemma step_found:
  assumes "truthy (mapGet (=) remToScaleMap r)"
  shows "isStep (the (mapGet (=) remToScaleMap r))"
    and "\<not> hasSpace (the (mapGet (=) remToScaleMap r))"
proof -
  from assms obtain sv where sv: "mapGet (=) remToScaleMap r = Some sv"
    by (auto simp add: truthy_def split: option.splits)
  then have "sv \<in> snd ` set remToScaleMap" by (rule mapGet_in)
  then have "isStep sv \<and> \<not> hasSpace sv" using remToScaleMap_steps by blast
  then show "isStep (the (mapGet (=) remToScaleMap r))"
    and "\<not> hasSpace (the (mapGet (=) remToScaleMap r))" using sv by simp_all
qed

lemma step_found_px:
  assumes "truthy (mapGet sameValueZero pxToScaleMap n)"
  shows "isStep (the (mapGet sameValueZero pxToScaleMap n))"
    and "\<not> hasSpace (the (mapGet sameValueZero pxToScaleMap n))"
proof -
  from assms obtain sv where sv: "mapGet sameValueZero pxToScaleMap n = Some sv"
    by (auto simp add: truthy_def split: option.splits)
  then have "sv \<in> snd ` set pxToScaleMap" by (rule mapGet_in)
  then have "isStep sv \<and> \<not> hasSpace sv" using pxToScaleMap_steps by blast
  then show "isStep (the (mapGet sameValueZero pxToScaleMap n))"
    and "\<not> hasSpace (the (mapGet sameValueZero pxToScaleMap n))" using sv by simp_all
qed

text \<open>Every number and every string normalizes to a token that is not empty, so the
  synthesizer never drops an element that is not null.\<close>

lemma normalizeSpacing_nonempty: "normalizeSpacing (Some v) \<noteq> []"
proof (cases v)
  case (Num n)
  then show ?thesis by (simp add: toString_nonempty)
next
  case (Str s)
  then show ?thesis
    by (auto simp add: normalizeSpacing.simps(3) Let_def truthy_def toString_nonempty
        split: option.splits)
qed

lemma tokenForm_brackets: "tokenForm (CHR ''['' # b @ '']'')"
  by (simp add: tokenForm_def bracketed_def)

lemma tokenForm_number: "tokenForm (normalizeSpacing (Some (Num n)))"
  using tokenForm_brackets [of "''-'' @ toString (mathAbs (mulBy n 4)) @ ''px''"]
  by (auto simp add: tokenForm_def numberText_toString)

lemma noSpace_number: "\<not> hasSpace (normalizeSpacing (Some (Num n)))"
  by (simp add: toString_noSpace isSpace_def)

lemma tokenForm_normalizeSpacing: "tokenForm (normalizeSpacing (Some v))"
proof (cases v)
  case (Num n)
  then show ?thesis by (simp only: tokenForm_number)
next
  case (Str s)
  have a: "tokenForm ''auto''" "tokenForm ''0''" by (simp_all add: tokenForm_def)
  have b: "\<And>b. tokenForm (''[-'' @ b @ ''px]'')" "\<And>b. tokenForm (''['' @ b @ ''px]'')"
    "\<And>b. tokenForm (''['' @ b @ '']'')"
    using tokenForm_brackets by (simp_all add: tokenForm_def bracketed_def)
  have c: "\<And>t. isStep t \<Longrightarrow> tokenForm t" by (simp add: tokenForm_def)
  show ?thesis
    unfolding Str normalizeSpacing.simps(3) Let_def
    using a b c step_found(1) step_found_px(1) tokenForm_number
    by (simp del: normalizeSpacing.simps append.simps)
qed

lemma removeSpaces_space:
  "hasSpace (removeSpaces s) \<Longrightarrow>
   hasSpace s \<and> \<not> includesStr s ''calc'' \<and> \<not> includesStr s ''clamp''"
  by (auto simp add: removeSpaces_def hasSpace_def list_ex_iff split: if_splits)

lemma space_normalizeSpacing:
  assumes "hasSpace (normalizeSpacing (Some v))"
  shows "spacedLiteral v"
proof (cases v)
  case (Num n)
  then show ?thesis using assms noSpace_number by simp
next
  case (Str s)
  have sp: "\<not> isSpace CHR ''[''" "\<not> isSpace CHR '']''" "\<not> isSpace CHR ''-''"
    "\<not> isSpace CHR ''p''" "\<not> isSpace CHR ''x''" "\<not> hasSpace ''auto''" "\<not> hasSpace ''0''"
    by (simp_all add: isSpace_def)
  have "hasSpace (removeSpaces s)"
    using assms unfolding Str normalizeSpacing.simps(3) Let_def
    using sp step_found(2) step_found_px(2) noSpace_number toString_noSpace
    by (simp del: normalizeSpacing.simps split: if_splits)
  then show ?thesis using Str removeSpaces_space by (simp add: spacedLiteral_def)
qed

section \<open>Properties of the synthesizer\<close>

lemma nonNull_simps [simp]:
  "nonNull [] = []"
  "nonNull (None # xs) = nonNull xs"
  "nonNull (Some x # xs) = x # nonNull xs"
  by (simp_all add: nonNull_def)

lemma nonNull_filter: "nonNull (filter (\<lambda>v. v \<noteq> None) vs) = nonNull vs"
  by (simp add: nonNull_def)

text \<open>The classes of the array branch: the elements that are not null, numbered from the
  start value of the counter.\<close>

lemma nonNull_sequenceItems:
  "nonNull (sequenceItems prefix k vs) =
   map (\<lambda>(i, v). breakpointPrefix i @ prefix @ ''-'' @ normalizeSpacing (Some v))
     (enumerate k (nonNull vs))"
proof (induction vs arbitrary: k)
  case Nil
  show ?case by simp
next
  case (Cons a vs)
  show ?case
  proof (cases a)
    case None
    then show ?thesis using Cons.IH [of k] by simp
  next
    case (Some v)
    then show ?thesis
      using Cons.IH [of "Suc k"]
      by (simp add: Let_def normalizeSpacing_nonempty breakpointPrefix_def)
  qed
qed

lemma breakpointPrefix_beyond: "6 \<le> i \<Longrightarrow> breakpointPrefix i = ''undefined:''"
  by (simp add: breakpointPrefix_def breakpointAt_def breakpoints_def templ_def)

lemma breakpointPrefix_shape: "breakpointPrefix i = [] \<or> last (breakpointPrefix i) = CHR '':''"
  by (simp add: breakpointPrefix_def)

text \<open>The classes of the object branch.\<close>

lemma nonNull_keyedItems:
  "nonNull (map (keyedItem prefix) es) =
   map (\<lambda>(k, v). (if k = ''base'' then [] else k @ '':'') @ prefix @ ''-''
          @ normalizeSpacing (Some v)) es"
  by (induction es) (auto simp add: keyedItem_def Let_def normalizeSpacing_nonempty)

lemma set_objectEntries: "set (objectEntries kvs) = set kvs"
  by (auto simp add: objectEntries_def)

section \<open>The claims\<close>

subsection \<open>Sparse arrays and the breakpoint counter\<close>

text \<open>
  Claim C1. The specification's worked example says that \<open>convertSpacing\<close> applied to
  \<open>padding\<close> and the array \<open>["8px", null, "0.5rem"]\<close> returns \<open>p-2 md:p-2\<close>, as does the
  repository's own test of array values. The code counts the elements that are not null,
  so the second surviving element meets the counter at 1 and the result is
  \<open>p-2 sm:p-2\<close>.
\<close>

theorem sparse_sequence_example:
  "convertSpacing ''padding'' (Sequence [Some (Str ''8px''), None, Some (Str ''0.5rem'')])
   = ''p-2 sm:p-2''"
  by (simp add: eval_simps)

text \<open>
  Claim C2. For every array the counter starts at 0 and advances only on elements that are
  not null: nulls produce no class and hold no place, so the result is that of the array
  with its nulls removed; and for every array \<open>[x, null, y]\<close> with \<open>x\<close> and \<open>y\<close> not null
  the class of \<open>x\<close> has no breakpoint prefix and the class of \<open>y\<close> has the prefix of ladder
  index 1, \<open>sm:\<close>. (No number or string normalizes to the empty token, so no further
  condition on \<open>x\<close> and \<open>y\<close> is needed.)
\<close>

theorem cursor_skips_null:
  assumes "map_of propertyPrefixMap property = Some prefix"
  shows "convertSpacing property (Sequence vs) =
           convertSpacing property (Sequence (filter (\<lambda>v. v \<noteq> None) vs))
       \<and> convertSpacing property (Sequence [Some x, None, Some y]) =
           prefix @ ''-'' @ normalizeSpacing (Some x) @ '' '' @
           ''sm:'' @ prefix @ ''-'' @ normalizeSpacing (Some y)"
proof -
  have "nonNull (sequenceItems prefix 0 vs) =
        nonNull (sequenceItems prefix 0 (filter (\<lambda>v. v \<noteq> None) vs))"
    by (simp only: nonNull_sequenceItems nonNull_filter)
  then show ?thesis
    using assms
    by (simp add: convertSpacing_def templ_def Let_def normalizeSpacing_nonempty
        breakpointAt_def breakpoints_def)
qed

theorem cursor_skips_null_witness:
  "map_of propertyPrefixMap ''mx'' = Some ''mx''
   \<and> convertSpacing ''mx''
        (Sequence [Some (Num (Fin False 2 0)), None, Some (Num (Fin False 6 0))])
      = ''mx-2 sm:mx-6''"
proof -
  have h: "map_of propertyPrefixMap ''mx'' = Some ''mx''"
    by (simp add: propertyPrefixMap_def)
  have n: "normalizeSpacing (Some (Num (Fin False 2 0))) = ''2''"
    "normalizeSpacing (Some (Num (Fin False 6 0))) = ''6''"
    by (simp_all add: eval_simps)
  from cursor_skips_null [OF h, where x = "Num (Fin False 2 0)" and y = "Num (Fin False 6 0)"]
  have "convertSpacing ''mx''
          (Sequence [Some (Num (Fin False 2 0)), None, Some (Num (Fin False 6 0))])
        = ''mx'' @ ''-'' @ normalizeSpacing (Some (Num (Fin False 2 0))) @ '' '' @
          ''sm:'' @ ''mx'' @ ''-'' @ normalizeSpacing (Some (Num (Fin False 6 0)))"
    by (rule conjunct2)
  with h n show ?thesis by simp
qed

text \<open>
  Claim C10. The ladder is indexed without a bounds check: in every array, the seventh
  and each later element that is not null is emitted with the prefix \<open>undefined:\<close>; it is
  neither dropped nor an error. The classes that are joined are as many as the elements
  that are not null.
\<close>

theorem ladder_overflow_undefined:
  assumes "map_of propertyPrefixMap property = Some prefix"
  shows "convertSpacing property (Sequence vs) = join '' '' (nonNull (sequenceItems prefix 0 vs))
       \<and> length (nonNull (sequenceItems prefix 0 vs)) = length (nonNull vs)
       \<and> (\<forall>i. 6 \<le> i \<and> i < length (nonNull vs) \<longrightarrow>
            nonNull (sequenceItems prefix 0 vs) ! i =
              ''undefined:'' @ prefix @ ''-'' @ normalizeSpacing (Some (nonNull vs ! i)))"
  using assms
  by (simp add: convertSpacing_def templ_def nonNull_sequenceItems nth_enumerate_eq
      breakpointPrefix_beyond)

theorem ladder_overflow_undefined_witness:
  "map_of propertyPrefixMap ''margin'' = Some ''m''
   \<and> nonNull (sequenceItems ''m'' 0
        (map (\<lambda>n. Some (Num (Fin False n 0))) [1, 2, 3, 4, 5, 6, 7])) ! 6
      = ''undefined:m-7''"
proof -
  let ?vs = "map (\<lambda>n. Some (Num (Fin False n 0))) [1, 2, 3, 4, 5, 6, 7]"
  have h: "map_of propertyPrefixMap ''margin'' = Some ''m''"
    by (simp add: propertyPrefixMap_def)
  have n: "normalizeSpacing (Some (nonNull ?vs ! 6)) = ''7''"
    by (simp add: eval_simps)
  have "6 \<le> (6::nat) \<and> 6 < length (nonNull ?vs)" by simp
  with ladder_overflow_undefined [OF h, of ?vs]
  have "nonNull (sequenceItems ''m'' 0 ?vs) ! 6 =
        ''undefined:'' @ ''m'' @ ''-'' @ normalizeSpacing (Some (nonNull ?vs ! 6))"
    by blast
  with h n show ?thesis by simp
qed

subsection \<open>Property identifiers\<close>

text \<open>
  Claim C4 as stated, that \<open>convertSpacing\<close> fails with an unknown-property condition for
  an identifier that is not in the prefix table, does not hold: for \<open>foo\<close> it returns the
  class \<open>undefined-4\<close>.
\<close>

theorem unknown_property_returns_class:
  "map_of propertyPrefixMap ''foo'' = None
   \<and> convertSpacing ''foo'' (Scalar (Num (Fin False 4 0))) = ''undefined-4''"
  by (simp add: eval_simps)

text \<open>
  Claim C4, amended. For every identifier that is not in the prefix table (and does not
  name a member inherited from \<open>Object.prototype\<close>) \<open>convertSpacing\<close> does not fail: the
  missing prefix is printed as \<open>undefined\<close>, and the result is the class string built with
  that text as prefix, for numbers and strings, arrays and objects alike. Unknown
  identifiers are excluded by the type of the parameter only.
\<close>

theorem unknown_property_prints_undefined:
  assumes "map_of propertyPrefixMap property = None"
    and "property \<notin> set objectPrototypeKeys"
  shows "convertSpacing property (Scalar v) = ''undefined-'' @ normalizeSpacing (Some v)
       \<and> convertSpacing property (Sequence vs) =
           join '' '' (nonNull (sequenceItems ''undefined'' 0 vs))
       \<and> convertSpacing property (Keyed kvs) =
           join '' '' (nonNull (map (keyedItem ''undefined'') (objectEntries kvs)))"
  using assms(1) by (simp add: convertSpacing_def templ_def normalizeSpacing_nonempty)

theorem unknown_property_prints_undefined_witness:
  "map_of propertyPrefixMap ''inset'' = None \<and> ''inset'' \<notin> set objectPrototypeKeys
   \<and> convertSpacing ''inset'' (Scalar (Str ''8px'')) = ''undefined-2''"
proof -
  have h: "map_of propertyPrefixMap ''inset'' = None" "''inset'' \<notin> set objectPrototypeKeys"
    by (simp_all add: propertyPrefixMap_def objectPrototypeKeys_def)
  have n: "normalizeSpacing (Some (Str ''8px'')) = ''2''"
    by (simp add: eval_simps)
  from unknown_property_prints_undefined [OF h, of "Str ''8px''"]
  have "convertSpacing ''inset'' (Scalar (Str ''8px'')) =
        ''undefined-'' @ normalizeSpacing (Some (Str ''8px''))"
    by (rule conjunct1)
  with h n show ?thesis by simp
qed

text \<open>
  Claim C8. For every spacing value, \<open>convertSpacing\<close> gives the same result for
  \<open>marginInlineStart\<close> and for \<open>ms\<close>.
\<close>

theorem logical_shorthand_equivalence:
  "convertSpacing ''marginInlineStart'' X = convertSpacing ''ms'' X"
  by (simp add: convertSpacing_def propertyPrefixMap_def)

subsection \<open>The normalizer\<close>

text \<open>
  Claim C3. The specification says that only a string that parses fully as a number takes
  the negative-number path, so that \<open>-4px\<close> normalizes to \<open>[-4px]\<close> and \<open>-1rem\<close> to
  \<open>[-1rem]\<close>, as the repository's tests of special values expect. The code reads the
  number with \<open>parseFloat\<close>, which accepts any text that begins with a number, and so
  both strings are taken for the numbers -4 and -1 and rescaled by 4 pixels per step.
\<close>

theorem negative_length_strings_rescaled:
  "normalizeSpacing (Some (Str ''-4px'')) = ''[-16px]''
   \<and> normalizeSpacing (Some (Str ''-1rem'')) = ''[-4px]''"
  by (simp add: eval_simps)

text \<open>
  Claim C5. Round trip over the whole scale table: for every entry, \<open>normalizeSpacing\<close>
  applied to the length of the entry returns its step, and so does \<open>normalizeSpacing\<close>
  applied to the equivalent pixel string.
\<close>

theorem scale_roundtrip:
  "\<forall>(step, len) \<in> set spacingScale.
     normalizeSpacing (Some (Str len)) = step
     \<and> normalizeSpacing (Some (Str (pxEquivalent len))) = step"
  by (simp add: spacingScale_def pxEquivalent_def eval_simps cong: let_weak_cong)

theorem scale_roundtrip_witness:
  "(''4'', ''1rem'') \<in> set spacingScale \<and> pxEquivalent ''1rem'' = ''16px''
   \<and> normalizeSpacing (Some (Str ''1rem'')) = ''4''
   \<and> normalizeSpacing (Some (Str ''16px'')) = ''4''"
proof -
  have m: "(''4'', ''1rem'') \<in> set spacingScale"
    by (simp add: spacingScale_def)
  have p: "pxEquivalent ''1rem'' = ''16px''"
    by (simp add: pxEquivalent_def eval_simps)
  from bspec [OF scale_roundtrip m]
  have "normalizeSpacing (Some (Str ''1rem'')) = ''4''
      \<and> normalizeSpacing (Some (Str (pxEquivalent ''1rem''))) = ''4''"
    by simp
  with m p show ?thesis by simp
qed

text \<open>
  Claim C6 as stated, that every canonical token is returned unchanged when it is fed back
  as a string, does not hold for the scale steps: the step \<open>4\<close>, which is what the number 4
  normalizes to, comes back as \<open>[4]\<close>.
\<close>

theorem scale_step_string_not_idempotent:
  "(''4'', ''1rem'') \<in> set spacingScale
   \<and> normalizeSpacing (Some (Num (Fin False 4 0))) = ''4''
   \<and> normalizeSpacing (Some (Str ''4'')) = ''[4]''"
  by (simp add: eval_simps spacingScale_def)

text \<open>
  Claim C6, amended. \<open>normalizeSpacing\<close> is idempotent on the canonical tokens \<open>0\<close> and
  \<open>auto\<close>: whenever the result for a value is one of them, feeding the result back as a
  string returns it unchanged.
\<close>

theorem idempotent_on_zero_and_auto:
  assumes "normalizeSpacing x = ''0'' \<or> normalizeSpacing x = ''auto''"
  shows "normalizeSpacing (Some (Str (normalizeSpacing x))) = normalizeSpacing x"
proof -
  have "normalizeSpacing (Some (Str ''0'')) = ''0''" by (simp add: eval_simps)
  moreover have "normalizeSpacing (Some (Str ''auto'')) = ''auto''" by (simp add: eval_simps)
  ultimately show ?thesis using assms by auto
qed

theorem idempotent_on_zero_and_auto_witness:
  "normalizeSpacing (Some (Str ''0px'')) = ''0''
   \<and> normalizeSpacing (Some (Str (normalizeSpacing (Some (Str ''0px''))))) =
       normalizeSpacing (Some (Str ''0px''))"
proof -
  have h: "normalizeSpacing (Some (Str ''0px'')) = ''0''" by (simp add: eval_simps)
  then have "normalizeSpacing (Some (Str ''0px'')) = ''0''
           \<or> normalizeSpacing (Some (Str ''0px'')) = ''auto''" ..
  from h idempotent_on_zero_and_auto [OF this] show ?thesis by (rule conjI)
qed

text \<open>
  Claim C9 as stated speaks of every string that ends in \<open>px\<close> and whose leading characters
  do not parse as a number. The code parses the text from which \<open>removeSpaces\<close> has taken
  the white space when it contains \<open>calc\<close> or \<open>clamp\<close>, and that text may begin with a
  number when the string itself does not.
\<close>

theorem compacted_px_parses:
  "endsWith ''+ 5calcpx'' ''px'' \<and> isNaN (parseFloat ''+ 5calcpx'')
   \<and> normalizeSpacing (Some (Str ''+ 5calcpx'')) = ''[5px]''"
  by (simp add: eval_simps)

text \<open>
  Claim C9, amended. For every string that ends in \<open>px\<close> and for which the text that the
  code parses (the string itself, or the string without its white space when it contains
  \<open>calc\<close> or \<open>clamp\<close>) does not begin with a number, the bare token \<open>px\<close> included,
  \<open>normalizeSpacing\<close> returns \<open>[NaNpx]\<close>.
\<close>

theorem unparsable_px_gives_NaN:
  assumes "endsWith value ''px''"
    and "isNaN (parseFloat (removeSpaces value))"
  shows "normalizeSpacing (Some (Str value)) = ''[NaNpx]''"
proof -
  let ?cv = "removeSpaces value"
  have notauto: "value \<noteq> ''auto''"
    using assms(1) by (auto simp add: endsWith_def)
  have nan: "isNaN (parseFloat value)"
    using assms(2) by (rule isNaN_parseFloat_removeSpaces)
  have px: "endsWith ?cv ''px''"
    using assms(1) by (rule endsWith_removeSpaces_px)
  have "\<not> isNaN (parseFloat ''0px'')" by (simp add: eval_simps)
  with assms(2) have n0px: "?cv \<noteq> ''0px''" by auto
  have n0: "?cv \<noteq> ''0''" "?cv \<noteq> ''0rem''"
    using px by (auto simp add: endsWith_def)
  have rem: "normalizeToRem ?cv = Some ''NaNrem''"
    using px assms(2) by (simp add: normalizeToRem_def isNaN_iff)
  have norem: "mapGet (=) remToScaleMap ''NaNrem'' = None"
    by (simp add: remToScaleMap_eval)
  have int: "parseInt ?cv = NaN"
    using assms(2) by (rule parseInt_NaN)
  have nopx: "mapGet sameValueZero pxToScaleMap NaN = None"
    by (simp add: pxToScaleMap_eval)
  show ?thesis
    using notauto nan n0px n0 px
    by (simp add: normalizeSpacing.simps(3) Let_def truthy_def rem norem int nopx)
qed

theorem unparsable_px_gives_NaN_witness:
  "endsWith ''px'' ''px'' \<and> isNaN (parseFloat (removeSpaces ''px''))
   \<and> normalizeSpacing (Some (Str ''px'')) = ''[NaNpx]''"
proof -
  have h: "endsWith ''px'' ''px''" "isNaN (parseFloat (removeSpaces ''px''))"
    by (simp_all add: eval_simps)
  from unparsable_px_gives_NaN [OF h] h show ?thesis by simp
qed

subsection \<open>The output format\<close>

text \<open>
  Claim C7 as stated, that every space-separated token of the result is a prefix, a hyphen
  and a step, \<open>auto\<close>, \<open>0\<close> or a bracketed literal without white space, does not hold: the
  string \<open>10 vh\<close> keeps its space inside the brackets.
\<close>

theorem spaced_literal_keeps_space:
  "convertSpacing ''margin'' (Scalar (Str ''10 vh'')) = ''m-[10 vh]''
   \<and> \<not> list_all (\<lambda>c. startsWith c ''m-'' \<and> claimedToken (drop 2 c))
          (splitOn CHR '' '' (convertSpacing ''margin'' (Scalar (Str ''10 vh''))))"
proof -
  have c: "convertSpacing ''margin'' (Scalar (Str ''10 vh'')) = ''m-[10 vh]''"
    by (simp add: eval_simps)
  have "\<not> list_all (\<lambda>c. startsWith c ''m-'' \<and> claimedToken (drop 2 c))
          (splitOn CHR '' '' ''m-[10 vh]'')"
    by (simp add: startsWith_def claimedToken_def isStep_def spacingScale_def bracketed_def)
  with c show ?thesis by simp
qed

text \<open>
  Claim C7, amended. For every property of the prefix table and every spacing value, the
  result is the classes of the value joined by single spaces; each class is an optional
  breakpoint prefix, the prefix of the property, a hyphen and the token of one number or
  string of the value; the token is \<open>auto\<close>, \<open>0\<close>, a scale step, the text of a number that
  is passed through, or a bracketed literal; and a token contains white space only when
  it is the bracketed literal of a string that contains white space and neither \<open>calc\<close>
  nor \<open>clamp\<close>.
\<close>

theorem output_format:
  assumes "map_of propertyPrefixMap property = Some prefix"
  shows "\<exists>classes. convertSpacing property value = join '' '' classes
     \<and> (\<forall>c \<in> set classes. \<exists>bp v.
           v \<in> set (leaves value) \<and> (bp = [] \<or> last bp = CHR '':'')
         \<and> c = bp @ prefix @ ''-'' @ normalizeSpacing (Some v)
         \<and> tokenForm (normalizeSpacing (Some v))
         \<and> (hasSpace (normalizeSpacing (Some v)) \<longrightarrow> spacedLiteral v))"
proof -
  let ?ok = "\<lambda>c. \<exists>bp v. v \<in> set (leaves value) \<and> (bp = [] \<or> last bp = CHR '':'')
         \<and> c = bp @ prefix @ ''-'' @ normalizeSpacing (Some v)
         \<and> tokenForm (normalizeSpacing (Some v))
         \<and> (hasSpace (normalizeSpacing (Some v)) \<longrightarrow> spacedLiteral v)"
  have leaf: "?ok (bp @ prefix @ ''-'' @ normalizeSpacing (Some v))"
    if "v \<in> set (leaves value)" "bp = [] \<or> last bp = CHR '':''" for bp v
    using that tokenForm_normalizeSpacing space_normalizeSpacing by blast
  show ?thesis
  proof (cases "value")
    case (Scalar v)
    have "?ok ([] @ prefix @ ''-'' @ normalizeSpacing (Some v))"
      by (rule leaf) (simp_all add: Scalar)
    moreover have "convertSpacing property value =
          join '' '' [[] @ prefix @ ''-'' @ normalizeSpacing (Some v)]"
      using assms by (simp add: Scalar convertSpacing_def templ_def normalizeSpacing_nonempty)
    ultimately show ?thesis by (intro exI conjI) (assumption, simp)
  next
    case (Sequence vs)
    let ?classes = "nonNull (sequenceItems prefix 0 vs)"
    have "convertSpacing property value = join '' '' ?classes"
      using assms by (simp add: Sequence convertSpacing_def templ_def)
    moreover have "\<forall>c \<in> set ?classes. ?ok c"
    proof
      fix c assume "c \<in> set ?classes"
      then obtain i v where iv: "(i, v) \<in> set (enumerate 0 (nonNull vs))"
        and c: "c = breakpointPrefix i @ prefix @ ''-'' @ normalizeSpacing (Some v)"
        by (auto simp add: nonNull_sequenceItems)
      from iv have "v \<in> set (leaves value)"
        by (auto simp add: Sequence in_set_enumerate_eq)
      then show "?ok c" unfolding c using breakpointPrefix_shape by (rule leaf)
    qed
    ultimately show ?thesis by blast
  next
    case (Keyed kvs)
    let ?classes = "nonNull (map (keyedItem prefix) (objectEntries kvs))"
    have "convertSpacing property value = join '' '' ?classes"
      using assms by (simp add: Keyed convertSpacing_def templ_def)
    moreover have "\<forall>c \<in> set ?classes. ?ok c"
    proof
      fix c assume "c \<in> set ?classes"
      then obtain k v where kv: "(k, v) \<in> set kvs"
        and c: "c = (if k = ''base'' then [] else k @ '':'') @ prefix @ ''-''
                  @ normalizeSpacing (Some v)"
        by (auto simp add: nonNull_keyedItems set_objectEntries)
      from kv have "v \<in> set (leaves value)"
        by (force simp add: Keyed)
      then show "?ok c" unfolding c by (rule leaf) simp
    qed
    ultimately show ?thesis by blast
  qed
qed

theorem output_format_witness:
  "map_of propertyPrefixMap ''padding'' = Some ''p''
   \<and> (\<exists>classes. convertSpacing ''padding'' (Scalar (Str ''calc(100% - 20px)''))
                  = join '' '' classes
     \<and> (\<forall>c \<in> set classes. \<exists>bp v.
           v \<in> set (leaves (Scalar (Str ''calc(100% - 20px)'')))
         \<and> (bp = [] \<or> last bp = CHR '':'')
         \<and> c = bp @ ''p'' @ ''-'' @ normalizeSpacing (Some v)
         \<and> tokenForm (normalizeSpacing (Some v))
         \<and> (hasSpace (normalizeSpacing (Some v)) \<longrightarrow> spacedLiteral v)))"
proof -
  have h: "map_of propertyPrefixMap ''padding'' = Some ''p''"
    by (simp add: propertyPrefixMap_def)
  from h output_format [OF h, of "Scalar (Str ''calc(100% - 20px)'')"]
  show ?thesis by (rule conjI)
qed

end
